theory Spec2Isabelle
  imports Main "HOL-Library.Char_ord" "HOL-Library.List_Lexorder"
begin

section \<open>Bytes and text\<close>

text \<open>
  A Go \<^verbatim>\<open>string\<close> and a Go \<^verbatim>\<open>[]byte\<close> are sequences of 8-bit values; both are
  modelled as \<^typ>\<open>string\<close>. \<open>byte\<close> reads a character as a number below 256 and \<open>chr\<close>
  builds the character with a given value.
\<close>

type_synonym bytes = string

definition byte :: "char \<Rightarrow> nat" where
  "byte c = of_char c"

definition chr :: "nat \<Rightarrow> char" where
  "chr n = char_of n"

text \<open>\<^verbatim>\<open>strings.Join(xs, sep)\<close>.\<close>

fun Join :: "string list \<Rightarrow> string \<Rightarrow> string" where
  "Join [] sep = []"
| "Join [x] sep = x"
| "Join (x # y # ys) sep = x @ sep @ Join (y # ys) sep"

text \<open>
  \<^verbatim>\<open>strings.Split(s, sep)\<close> for a separator of one character, the only kind this package
  uses (a newline and a semicolon): the result always has at least one element.
\<close>

fun Split :: "string \<Rightarrow> char \<Rightarrow> string list" where
  "Split [] sep = [[]]"
| "Split (c # cs) sep =
     (if c = sep then [] # Split cs sep
      else (case Split cs sep of [] \<Rightarrow> [[c]] | w # ws \<Rightarrow> (c # w) # ws))"

section \<open>Content identifiers (go-cid, go-multihash, go-ipfs-ds-help)\<close>

text \<open>
  The content-identifier codec is an external collaborator of the package. A CID is kept
  by its structure: the undefined zero value \<^verbatim>\<open>cid.Cid{}\<close>, a version 0 CID (always
  dag-pb over a multihash), or a version 1 CID with its codec and multihash. A multihash
  is its byte string \<^verbatim>\<open><code><length><digest></verbatim>\<close>, as in go-multihash.
\<close>

type_synonym multihash = bytes

datatype Cid = Undef | CidV0 multihash | CidV1 nat multihash

definition DagProtobuf :: nat where
  "DagProtobuf = 0x70"

definition Raw :: nat where
  "Raw = 0x55"

fun Defined :: "Cid \<Rightarrow> bool" where
  "Defined Undef = False"
| "Defined _ = True"

text \<open>\<^verbatim>\<open>Version()\<close> answers 0 only for the 34-byte sha2-256 form; the zero value reads as 1.\<close>

fun Version :: "Cid \<Rightarrow> nat" where
  "Version (CidV0 h) = 0"
| "Version _ = 1"

fun Hash_of :: "Cid \<Rightarrow> multihash" where
  "Hash_of Undef = []"
| "Hash_of (CidV0 h) = h"
| "Hash_of (CidV1 c h) = h"

definition NewCidV1 :: "nat \<Rightarrow> multihash \<Rightarrow> Cid" where
  "NewCidV1 codec h = CidV1 codec h"

subsection \<open>Unsigned varints\<close>

fun uvarint :: "nat \<Rightarrow> bytes" where
  "uvarint n = (if n < 128 then [chr n] else chr (128 + n mod 128) # uvarint (n div 128))"

text \<open>
  Reading a varint from the front of a buffer: the value and the rest, or nothing when
  the buffer ends inside the varint. \<open>k\<close> is the weight of the next group of seven bits.
\<close>

fun read_uvarint :: "nat \<Rightarrow> bytes \<Rightarrow> (nat \<times> bytes) option" where
  "read_uvarint k [] = None"
| "read_uvarint k (c # cs) =
     (if byte c < 128 then Some (byte c * k, cs)
      else (case read_uvarint (k * 128) cs of
              None \<Rightarrow> None
            | Some (v, rest) \<Rightarrow> Some ((byte c - 128) * k + v, rest)))"

text \<open>
  A well-formed multihash: a varint code, a varint length, and exactly that many digest
  bytes (go-multihash's \<^verbatim>\<open>Cast\<close> refuses anything else).
\<close>

definition wf_multihash :: "multihash \<Rightarrow> bool" where
  "wf_multihash h =
     (case read_uvarint 1 h of
        None \<Rightarrow> False
      | Some (code, r1) \<Rightarrow>
          (case read_uvarint 1 r1 of
             None \<Rightarrow> False
           | Some (len, digest) \<Rightarrow> length digest = len))"

text \<open>The multihash of a version 0 CID is sha2-256: bytes 0x12, 0x20 and a 32-byte digest.\<close>

definition is_sha256_mh :: "multihash \<Rightarrow> bool" where
  "is_sha256_mh h = (length h = 34 \<and> take 2 h = [CHR 0x12, CHR 0x20])"

fun wf_Cid :: "Cid \<Rightarrow> bool" where
  "wf_Cid Undef = True"
| "wf_Cid (CidV0 h) = is_sha256_mh h"
| "wf_Cid (CidV1 c h) = wf_multihash h"

subsection \<open>Base 58 and base 32 text\<close>

text \<open>
  Digits of a number in base \<open>b\<close>, most significant first, and the number of a digit
  list. Base58btc writes a byte string as the base-58 digits of the big-endian number it
  spells, with one \<open>1\<close> in front for every leading zero byte.
\<close>

fun digits_of :: "nat \<Rightarrow> nat \<Rightarrow> nat list \<Rightarrow> nat list" where
  "digits_of b n acc = (if b < 2 \<or> n = 0 then acc else digits_of b (n div b) (n mod b # acc))"

definition nat_of_digits :: "nat \<Rightarrow> nat list \<Rightarrow> nat" where
  "nat_of_digits b ds = foldl (\<lambda>a d. a * b + d) 0 ds"

definition b58_alphabet :: string where
  "b58_alphabet = ''123456789ABCDEFGHJKLMNPQRSTUVWXYZabcdefghijkmnopqrstuvwxyz''"

fun index_from :: "nat \<Rightarrow> 'a list \<Rightarrow> 'a \<Rightarrow> nat option" where
  "index_from k [] a = None"
| "index_from k (x # xs) a = (if x = a then Some k else index_from (k + 1) xs a)"

definition index_of :: "'a list \<Rightarrow> 'a \<Rightarrow> nat option" where
  "index_of xs a = index_from 0 xs a"

fun those_opt :: "'a option list \<Rightarrow> 'a list option" where
  "those_opt [] = Some []"
| "those_opt (None # xs) = None"
| "those_opt (Some x # xs) = map_option ((#) x) (those_opt xs)"

definition b58_encode :: "bytes \<Rightarrow> string" where
  "b58_encode bs =
     replicate (length (takeWhile (\<lambda>c. c = CHR 0x00) bs)) CHR ''1''
     @ map (\<lambda>d. b58_alphabet ! d) (digits_of 58 (nat_of_digits 256 (map byte bs)) [])"

definition b58_decode :: "string \<Rightarrow> bytes option" where
  "b58_decode s =
     (case those_opt (map (index_of b58_alphabet) s) of
        None \<Rightarrow> None
      | Some ds \<Rightarrow>
          Some (replicate (length (takeWhile (\<lambda>d. d = 0) ds)) CHR 0x00
                @ map chr (digits_of 256 (nat_of_digits 58 ds) [])))"

text \<open>
  Base 32 (RFC 4648, no padding) reads the bytes as one string of bits, eight per byte,
  and writes each group of five bits as a letter; the last group is filled with zero bits.
\<close>

definition bits8 :: "nat \<Rightarrow> bool list" where
  "bits8 n = [odd (n div 128), odd (n div 64), odd (n div 32), odd (n div 16),
              odd (n div 8), odd (n div 4), odd (n div 2), odd n]"

definition bits5 :: "nat \<Rightarrow> bool list" where
  "bits5 n = [odd (n div 16), odd (n div 8), odd (n div 4), odd (n div 2), odd n]"

definition nat_of_bits :: "bool list \<Rightarrow> nat" where
  "nat_of_bits bs = foldl (\<lambda>a b. 2 * a + (if b then 1 else 0)) 0 bs"

fun groups5 :: "'a list \<Rightarrow> 'a list list" where
  "groups5 (a # b # c # d # e # r) = [a, b, c, d, e] # groups5 r"
| "groups5 [] = []"
| "groups5 xs = [xs]"

text \<open>Groups of eight; bits left over at the end are dropped.\<close>

fun groups8 :: "'a list \<Rightarrow> 'a list list" where
  "groups8 (a # b # c # d # e # f # g # h # r) = [a, b, c, d, e, f, g, h] # groups8 r"
| "groups8 xs = []"

definition b32_lower :: string where
  "b32_lower = ''abcdefghijklmnopqrstuvwxyz234567''"

definition b32_upper :: string where
  "b32_upper = ''ABCDEFGHIJKLMNOPQRSTUVWXYZ234567''"

definition b32_encode :: "string \<Rightarrow> bytes \<Rightarrow> string" where
  "b32_encode alphabet bs =
     map (\<lambda>g. alphabet ! nat_of_bits (take 5 (g @ [False, False, False, False])))
         (groups5 (concat (map (\<lambda>c. bits8 (byte c)) bs)))"

definition b32_decode :: "string \<Rightarrow> string \<Rightarrow> bytes option" where
  "b32_decode alphabet s =
     (case those_opt (map (index_of alphabet) s) of
        None \<Rightarrow> None
      | Some ds \<Rightarrow> Some (map (\<lambda>g. chr (nat_of_bits g)) (groups8 (concat (map bits5 ds)))))"

subsection \<open>CIDs as text and as datastore keys\<close>

datatype error =
    ErrNotFound
  | UnexpectedActionType string
  | ErrRecordNotFound
  | DsErrNotFound
  | StoreFailure string
  | ErrInvalidMultihash
  | ErrInvalidCid string
  | JsonError string

text \<open>
  \<open>ErrNotFound\<close> is the package's own \<^verbatim>\<open>ErrNotFound\<close> ("blocklist item not found");
  \<open>UnexpectedActionType t\<close> is \<^verbatim>\<open>fmt.Errorf("unexpected action type: '%v'", t)\<close>;
  \<open>ErrRecordNotFound\<close> is gorm's and \<open>DsErrNotFound\<close> go-datastore's not-found error;
  \<open>StoreFailure\<close> stands for any I/O or query failure of an underlying store; the last
  three are the failures of the multihash, CID and JSON codecs.
\<close>

text \<open>\<^verbatim>\<open>mh.FromB58String\<close>: base-58 decoding, then the multihash must be well formed.\<close>

definition FromB58String :: "string \<Rightarrow> error + multihash" where
  "FromB58String s =
     (case b58_decode s of
        None \<Rightarrow> Inl ErrInvalidMultihash
      | Some h \<Rightarrow> if wf_multihash h then Inr h else Inl ErrInvalidMultihash)"

text \<open>The binary form of a CID: a version 0 CID is its multihash alone.\<close>

fun Bytes_of :: "Cid \<Rightarrow> bytes" where
  "Bytes_of Undef = []"
| "Bytes_of (CidV0 h) = h"
| "Bytes_of (CidV1 c h) = uvarint 1 @ uvarint c @ h"

text \<open>
  \<^verbatim>\<open>Cid.String()\<close>: base58btc of the multihash for version 0, otherwise the multibase
  prefix \<open>b\<close> and the base-32 text of the binary form.
\<close>

fun String :: "Cid \<Rightarrow> string" where
  "String (CidV0 h) = b58_encode h"
| "String c = CHR ''b'' # b32_encode b32_lower (Bytes_of c)"

text \<open>\<^verbatim>\<open>cid.Cast\<close>: a CID from its binary form.\<close>

definition Cast :: "bytes \<Rightarrow> error + Cid" where
  "Cast d =
     (if is_sha256_mh d then Inr (CidV0 d)
      else (case read_uvarint 1 d of
              None \<Rightarrow> Inl (ErrInvalidCid ''varint'')
            | Some (vers, r1) \<Rightarrow>
                if vers \<noteq> 1 then Inl (ErrInvalidCid ''version'')
                else (case read_uvarint 1 r1 of
                        None \<Rightarrow> Inl (ErrInvalidCid ''varint'')
                      | Some (codec, h) \<Rightarrow>
                          if wf_multihash h then Inr (CidV1 codec h)
                          else Inl ErrInvalidMultihash)))"

text \<open>
  \<^verbatim>\<open>cid.Decode\<close> (and \<^verbatim>\<open>cid.Parse\<close> on a string without an \<^verbatim>\<open>/ipfs/\<close> path): a
  46-character text starting \<open>Qm\<close> is a version 0 CID in base 58, anything else is
  multibase text. Of the multibase encodings, base 32 (prefix \<open>b\<close>, what \<open>String\<close>
  writes) and base58btc (prefix \<open>z\<close>) are modelled.
\<close>

definition Decode :: "string \<Rightarrow> error + Cid" where
  "Decode v =
     (if length v < 2 then Inl (ErrInvalidCid ''cid too short'')
      else if length v = 46 \<and> take 2 v = ''Qm'' then
        (case FromB58String v of
           Inl e \<Rightarrow> Inl e
         | Inr h \<Rightarrow> if is_sha256_mh h then Inr (CidV0 h) else Inl (ErrInvalidCid ''invalid hash for cidv0''))
      else if hd v = CHR ''b'' then
        (case b32_decode b32_lower (tl v) of
           None \<Rightarrow> Inl (ErrInvalidCid ''multibase'')
         | Some d \<Rightarrow> Cast d)
      else if hd v = CHR ''z'' then
        (case b58_decode (tl v) of
           None \<Rightarrow> Inl (ErrInvalidCid ''multibase'')
         | Some d \<Rightarrow> Cast d)
      else Inl (ErrInvalidCid ''multibase''))"

text \<open>
  \<^verbatim>\<open>dshelp.CidToDsKey\<close>: the datastore key of a CID is the upper-case base-32 text of
  its multihash under the root, so it does not depend on version or codec.
\<close>

definition CidToDsKey :: "Cid \<Rightarrow> string" where
  "CidToDsKey c = CHR ''/'' # b32_encode b32_upper (Hash_of c)"

section \<open>Time (package time)\<close>

text \<open>
  A \<^verbatim>\<open>time.Time\<close> is kept as the civil date and clock reading it shows in its own zone,
  with the zone's offset in seconds east of UTC. This is what the RFC 3339 text of a time
  carries; the monotonic clock reading and the zone's name are outside the model.
\<close>

record Time =
  Year :: int
  Month :: nat
  Day :: nat
  Hour :: nat
  Minute :: nat
  Second :: nat
  Nanosecond :: nat
  Offset :: int

definition isLeap :: "int \<Rightarrow> bool" where
  "isLeap y = (y mod 4 = 0 \<and> (y mod 100 \<noteq> 0 \<or> y mod 400 = 0))"

definition daysIn :: "int \<Rightarrow> nat \<Rightarrow> nat" where
  "daysIn y m =
     (if m = 2 then (if isLeap y then 29 else 28)
      else if m = 4 \<or> m = 6 \<or> m = 9 \<or> m = 11 then 30 else 31)"

definition valid_Time :: "Time \<Rightarrow> bool" where
  "valid_Time t =
     (1 \<le> Month t \<and> Month t \<le> 12 \<and> 1 \<le> Day t \<and> Day t \<le> daysIn (Year t) (Month t)
      \<and> Hour t < 24 \<and> Minute t < 60 \<and> Second t < 60 \<and> Nanosecond t < 1000000000
      \<and> - 86400 < Offset t \<and> Offset t < 86400)"

text \<open>Days from the first of January of year 0 to the first of January of year \<open>y\<close>.\<close>

definition daysBeforeYear :: "int \<Rightarrow> int" where
  "daysBeforeYear y = 365 * y + (y + 3) div 4 - (y + 99) div 100 + (y + 399) div 400"

text \<open>Days of a common year before month \<open>m\<close> (Go's \<^verbatim>\<open>daysBefore\<close> table).\<close>

definition daysBefore :: "nat \<Rightarrow> nat" where
  "daysBefore m = [0, 31, 59, 90, 120, 151, 181, 212, 243, 273, 304, 334, 365] ! (m - 1)"

text \<open>
  The instant a time denotes, in seconds (the nanoseconds are kept beside it), as
  \<^verbatim>\<open>time.Date\<close> computes it: days to the year, to the month, a day more after February
  of a leap year, the clock reading, less the zone offset.
\<close>

definition seconds_of :: "Time \<Rightarrow> int" where
  "seconds_of t =
     (daysBeforeYear (Year t) + int (daysBefore (Month t))
        + (if isLeap (Year t) \<and> 3 \<le> Month t then 1 else 0) + int (Day t - 1)) * 86400
     + int (Hour t) * 3600 + int (Minute t) * 60 + int (Second t) - Offset t"

definition instant :: "Time \<Rightarrow> int \<times> nat" where
  "instant t = (seconds_of t, Nanosecond t)"

text \<open>\<^verbatim>\<open>t.Before(u)\<close> and "not after": the order of instants.\<close>

definition Before :: "Time \<Rightarrow> Time \<Rightarrow> bool" where
  "Before t u = (seconds_of t < seconds_of u
                 \<or> (seconds_of t = seconds_of u \<and> Nanosecond t < Nanosecond u))"

definition not_after :: "Time \<Rightarrow> Time \<Rightarrow> bool" where
  "not_after t u = (\<not> Before u t)"

subsection \<open>RFC 3339 text\<close>

definition digit :: "nat \<Rightarrow> char" where
  "digit d = ''0123456789'' ! d"

text \<open>\<^verbatim>\<open>appendInt\<close>: the decimal digits, filled with zeros in front up to the width.\<close>

definition appendNat :: "nat \<Rightarrow> nat \<Rightarrow> string" where
  "appendNat n width =
     (let ds = map digit (digits_of 10 n []) in replicate (width - length ds) CHR ''0'' @ ds)"

definition appendInt :: "int \<Rightarrow> nat \<Rightarrow> string" where
  "appendInt x width = (if x < 0 then CHR ''-'' # appendNat (nat (- x)) width else appendNat (nat x) width)"

text \<open>
  The zone as \<^verbatim>\<open>Z07:00\<close> prints it: \<open>Z\<close> for offset zero, otherwise sign, hours and
  minutes; seconds of the offset are dropped.
\<close>

definition format_zone :: "int \<Rightarrow> string" where
  "format_zone off =
     (if off = 0 then ''Z''
      else (let zone = nat (abs off) div 60
            in (if off \<le> - 60 then ''-'' else ''+'')
               @ appendNat (zone div 60) 2 @ '':'' @ appendNat (zone mod 60) 2))"

definition format_date_time :: "Time \<Rightarrow> string" where
  "format_date_time t =
     appendInt (Year t) 4 @ ''-'' @ appendNat (Month t) 2 @ ''-'' @ appendNat (Day t) 2 @ ''T''
     @ appendNat (Hour t) 2 @ '':'' @ appendNat (Minute t) 2 @ '':'' @ appendNat (Second t) 2"

text \<open>\<^verbatim>\<open>t.Format(time.RFC3339)\<close>, layout \<^verbatim>\<open>2006-01-02T15:04:05Z07:00\<close>.\<close>

definition Format_RFC3339 :: "Time \<Rightarrow> string" where
  "Format_RFC3339 t = format_date_time t @ format_zone (Offset t)"

text \<open>
  The fraction of \<^verbatim>\<open>time.RFC3339Nano\<close>: nothing for zero nanoseconds, otherwise a point
  and the nine digits without their trailing zeros.
\<close>

definition format_fraction :: "nat \<Rightarrow> string" where
  "format_fraction ns =
     (if ns = 0 then [] else CHR ''.'' # rev (dropWhile (\<lambda>c. c = CHR ''0'') (rev (appendNat ns 9))))"

definition Format_RFC3339Nano :: "Time \<Rightarrow> string" where
  "Format_RFC3339Nano t = format_date_time t @ format_fraction (Nanosecond t) @ format_zone (Offset t)"

text \<open>Reading decimal digits: the number of a string of digits, nothing for any other string.\<close>

definition atoi :: "string \<Rightarrow> nat option" where
  "atoi s = map_option (nat_of_digits 10) (those_opt (map (index_of ''0123456789'') s))"

text \<open>
  The zone of an RFC 3339 text: \<open>Z\<close>, or a sign, two digits of hours, a colon and two
  digits of minutes, which must end the text.
\<close>

definition parse_zone :: "string \<Rightarrow> int option" where
  "parse_zone s =
     (if s = ''Z'' then Some 0
      else (case s of
              [sg, h1, h2, c, m1, m2] \<Rightarrow>
                (if (sg = CHR ''+'' \<or> sg = CHR ''-'') \<and> c = CHR '':'' then
                   (case (atoi [h1, h2], atoi [m1, m2]) of
                      (Some h, Some m) \<Rightarrow>
                        if h < 24 \<and> m < 60 then
                          Some ((if sg = CHR ''-'' then - 1 else 1) * int ((h * 60 + m) * 60))
                        else None
                    | _ \<Rightarrow> None)
                 else None)
            | _ \<Rightarrow> None))"

text \<open>
  The fraction and zone after the seconds: an optional point followed by digits (the
  first nine count, fewer are filled with zeros), then the zone.
\<close>

definition parse_fraction_zone :: "string \<Rightarrow> (nat \<times> int) option" where
  "parse_fraction_zone s =
     (case s of
        [] \<Rightarrow> None
      | c # cs \<Rightarrow>
          if c = CHR ''.'' then
            (let ds = takeWhile (\<lambda>d. index_of ''0123456789'' d \<noteq> None) cs;
                 rest = dropWhile (\<lambda>d. index_of ''0123456789'' d \<noteq> None) cs
             in if ds = [] then None
                else (case (atoi (take 9 (ds @ replicate 9 CHR ''0'')), parse_zone rest) of
                        (Some ns, Some off) \<Rightarrow> Some (ns, off)
                      | _ \<Rightarrow> None))
          else map_option (\<lambda>off. (0, off)) (parse_zone s))"

text \<open>
  \<^verbatim>\<open>time.Parse(time.RFC3339, s)\<close>: four digits of year, two each of month, day, hour,
  minute and second with their separators, each within its range, then fraction and zone.
\<close>

definition Parse_RFC3339 :: "string \<Rightarrow> Time option" where
  "Parse_RFC3339 s =
     (if length s < 20 then None
      else if s ! 4 \<noteq> CHR ''-'' \<or> s ! 7 \<noteq> CHR ''-'' \<or> s ! 10 \<noteq> CHR ''T''
              \<or> s ! 13 \<noteq> CHR '':'' \<or> s ! 16 \<noteq> CHR '':'' then None
      else (case (atoi (take 4 s), atoi (take 2 (drop 5 s)), atoi (take 2 (drop 8 s)),
                  atoi (take 2 (drop 11 s)), atoi (take 2 (drop 14 s)), atoi (take 2 (drop 17 s)),
                  parse_fraction_zone (drop 19 s)) of
              (Some y, Some m, Some d, Some h, Some mi, Some sc, Some (ns, off)) \<Rightarrow>
                if 1 \<le> m \<and> m \<le> 12 \<and> 1 \<le> d \<and> d \<le> daysIn (int y) m \<and> h < 24 \<and> mi < 60 \<and> sc < 60
                then Some \<lparr>Year = int y, Month = m, Day = d, Hour = h, Minute = mi, Second = sc,
                           Nanosecond = ns, Offset = off\<rparr>
                else None
            | _ \<Rightarrow> None))"

section \<open>JSON (package encoding/json)\<close>

subsection \<open>UTF-8\<close>

text \<open>
  The runes of a string as \<^verbatim>\<open>utf8.DecodeRuneInString\<close> reads them one after the other:
  a byte that does not start a well-formed sequence (shortest form, no surrogates, at
  most U+10FFFF) reads as the replacement rune U+FFFD and is one byte wide.
\<close>

definition RuneError :: nat where
  "RuneError = 0xFFFD"

definition cont :: "char \<Rightarrow> bool" where
  "cont c = (0x80 \<le> byte c \<and> byte c \<le> 0xBF)"

text \<open>The range accepted for the second byte after the lead byte \<open>b\<close> (\<^verbatim>\<open>acceptRanges\<close>).\<close>

definition second_ok :: "nat \<Rightarrow> char \<Rightarrow> bool" where
  "second_ok b c =
     (if b = 0xE0 then 0xA0 \<le> byte c \<and> byte c \<le> 0xBF
      else if b = 0xED then 0x80 \<le> byte c \<and> byte c \<le> 0x9F
      else if b = 0xF0 then 0x90 \<le> byte c \<and> byte c \<le> 0xBF
      else if b = 0xF4 then 0x80 \<le> byte c \<and> byte c \<le> 0x8F
      else cont c)"

fun runes_of :: "bytes \<Rightarrow> nat list" where
  "runes_of [] = []"
| "runes_of (c0 # cs) =
     (if byte c0 < 0x80 then byte c0 # runes_of cs
      else if 0xC2 \<le> byte c0 \<and> byte c0 \<le> 0xDF then
        (case cs of
           c1 # r \<Rightarrow>
             if cont c1 then ((byte c0 mod 32) * 64 + byte c1 mod 64) # runes_of r
             else RuneError # runes_of cs
         | _ \<Rightarrow> RuneError # runes_of cs)
      else if 0xE0 \<le> byte c0 \<and> byte c0 \<le> 0xEF then
        (case cs of
           c1 # c2 # r \<Rightarrow>
             if second_ok (byte c0) c1 \<and> cont c2
             then ((byte c0 mod 16) * 4096 + (byte c1 mod 64) * 64 + byte c2 mod 64) # runes_of r
             else RuneError # runes_of cs
         | _ \<Rightarrow> RuneError # runes_of cs)
      else if 0xF0 \<le> byte c0 \<and> byte c0 \<le> 0xF4 then
        (case cs of
           c1 # c2 # c3 # r \<Rightarrow>
             if second_ok (byte c0) c1 \<and> cont c2 \<and> cont c3
             then ((byte c0 mod 8) * 262144 + (byte c1 mod 64) * 4096 + (byte c2 mod 64) * 64
                   + byte c3 mod 64) # runes_of r
             else RuneError # runes_of cs
         | _ \<Rightarrow> RuneError # runes_of cs)
      else RuneError # runes_of cs)"

text \<open>\<^verbatim>\<open>utf8.ValidString\<close>: every byte belongs to a well-formed sequence.\<close>

fun ValidString :: "bytes \<Rightarrow> bool" where
  "ValidString [] = True"
| "ValidString (c0 # cs) =
     (if byte c0 < 0x80 then ValidString cs
      else if 0xC2 \<le> byte c0 \<and> byte c0 \<le> 0xDF then
        (case cs of c1 # r \<Rightarrow> cont c1 \<and> ValidString r | _ \<Rightarrow> False)
      else if 0xE0 \<le> byte c0 \<and> byte c0 \<le> 0xEF then
        (case cs of c1 # c2 # r \<Rightarrow> second_ok (byte c0) c1 \<and> cont c2 \<and> ValidString r | _ \<Rightarrow> False)
      else if 0xF0 \<le> byte c0 \<and> byte c0 \<le> 0xF4 then
        (case cs of
           c1 # c2 # c3 # r \<Rightarrow> second_ok (byte c0) c1 \<and> cont c2 \<and> cont c3 \<and> ValidString r
         | _ \<Rightarrow> False)
      else False)"

text \<open>
  \<^verbatim>\<open>utf8.EncodeRune\<close>: one to four bytes; a surrogate or a value past U+10FFFF is
  written as U+FFFD.
\<close>

definition EncodeRune :: "nat \<Rightarrow> bytes" where
  "EncodeRune r =
     (if r < 0x80 then [chr r]
      else if r < 0x800 then [chr (0xC0 + r div 64), chr (0x80 + r mod 64)]
      else if 0x10FFFF < r \<or> (0xD800 \<le> r \<and> r \<le> 0xDFFF) then [CHR 0xEF, CHR 0xBF, CHR 0xBD]
      else if r < 0x10000 then
        [chr (0xE0 + r div 4096), chr (0x80 + r div 64 mod 64), chr (0x80 + r mod 64)]
      else [chr (0xF0 + r div 262144), chr (0x80 + r div 4096 mod 64),
            chr (0x80 + r div 64 mod 64), chr (0x80 + r mod 64)])"

subsection \<open>Documents\<close>

text \<open>
  A JSON document is kept as the value it denotes: the text layer of encoding/json
  (quoting, escapes, white space) is not modelled, so the byte slices that the package
  passes to and from a store are values of type \<open>json\<close>. A JSON string is a sequence of
  runes. Writing a Go string replaces each invalid byte by U+FFFD (\<open>runes_of\<close>);
  reading a JSON string into a Go string writes its runes in UTF-8.
\<close>

datatype json =
    JNull
  | JBool bool
  | JNumber string
  | JString "nat list"
  | JArray "json list"
  | JObject "(string \<times> json) list"

definition json_of_string :: "string \<Rightarrow> json" where
  "json_of_string s = JString (runes_of s)"

definition string_of_runes :: "nat list \<Rightarrow> string" where
  "string_of_runes rs = concat (map EncodeRune rs)"

text \<open>
  Object keys match field names without regard to case. \<open>fold_name\<close> lowers the ASCII
  letters of a key.
\<close>

definition to_lower :: "char \<Rightarrow> char" where
  "to_lower c = (if CHR ''A'' \<le> c \<and> c \<le> CHR ''Z'' then chr (byte c + 32) else c)"

definition key_is :: "string \<Rightarrow> string \<Rightarrow> bool" where
  "key_is k name = (map to_lower k = map to_lower name)"

text \<open>
  Reading a JSON value into a Go \<^verbatim>\<open>string\<close> variable that holds \<open>old\<close>: a string sets it,
  \<open>null\<close> leaves it, anything else is a type error.
\<close>

fun into_string :: "string \<Rightarrow> json \<Rightarrow> error + string" where
  "into_string old (JString rs) = Inr (string_of_runes rs)"
| "into_string old JNull = Inr old"
| "into_string old _ = Inl (JsonError ''cannot unmarshal into Go value of type string'')"

text \<open>Running a fallible step over a list, stopping at the first error.\<close>

fun mapM :: "('a \<Rightarrow> error + 'b) \<Rightarrow> 'a list \<Rightarrow> error + 'b list" where
  "mapM f [] = Inr []"
| "mapM f (x # xs) =
     (case f x of
        Inl e \<Rightarrow> Inl e
      | Inr y \<Rightarrow> (case mapM f xs of Inl e \<Rightarrow> Inl e | Inr ys \<Rightarrow> Inr (y # ys)))"

text \<open>
  Reading into a \<^verbatim>\<open>[]string\<close>: \<open>null\<close> gives the nil slice, an array gives its elements,
  each read into a fresh (empty) string. A nil slice and an empty slice are both the
  empty list in this model.
\<close>

fun into_strings :: "json \<Rightarrow> error + string list" where
  "into_strings JNull = Inr []"
| "into_strings (JArray vs) = mapM (into_string []) vs"
| "into_strings _ = Inl (JsonError ''cannot unmarshal into Go value of type []string'')"

section \<open>The package's types (blocklist.go)\<close>

record BlocklistItem =
  Hash :: string
  Content :: "string list"
  Reason :: string
  User :: string

text \<open>\<open>BlockData\<close> is what the "Block Content" form is filled with.\<close>

record BlockData =
  Blocked :: "string list"
  Content_d :: "string list"
  Reason_d :: string
  User_d :: string

text \<open>\<open>Action\<close> is an auditable action; \<open>Typ\<close> is either "block" or "unblock".\<close>

record Action =
  Typ :: string
  Ids :: "Cid list"
  Reason_a :: string
  User_a :: string
  CreatedAt :: Time

text \<open>The zero values \<^verbatim>\<open>BlocklistItem{}\<close>, \<^verbatim>\<open>time.Time{}\<close> and \<^verbatim>\<open>Action{}\<close>.\<close>

definition zero_BlocklistItem :: BlocklistItem where
  "zero_BlocklistItem = \<lparr>Hash = [], Content = [], Reason = [], User = []\<rparr>"

definition zero_Time :: Time where
  "zero_Time = \<lparr>Year = 1, Month = 1, Day = 1, Hour = 0, Minute = 0, Second = 0,
                 Nanosecond = 0, Offset = 0\<rparr>"

definition zero_Action :: Action where
  "zero_Action = \<lparr>Typ = [], Ids = [], Reason_a = [], User_a = [], CreatedAt = zero_Time\<rparr>"

subsection \<open>BlocklistItem.MarshalBinary and UnmarshalBinary\<close>

text \<open>
  \<^verbatim>\<open>json.Marshal(b)\<close> writes the four exported fields in order; it cannot fail on
  strings and string slices.
\<close>

definition BlocklistItem_MarshalBinary :: "BlocklistItem \<Rightarrow> error + json" where
  "BlocklistItem_MarshalBinary b =
     Inr (JObject [(''Hash'', json_of_string (Hash b)),
                   (''Content'', JArray (map json_of_string (Content b))),
                   (''Reason'', json_of_string (Reason b)),
                   (''User'', json_of_string (User b))])"

text \<open>
  One member of an object read into a \<open>BlocklistItem\<close>; a key that names no field is
  skipped.
\<close>

definition BlocklistItem_member :: "string \<times> json \<Rightarrow> BlocklistItem \<Rightarrow> error + BlocklistItem" where
  "BlocklistItem_member kv b =
     (if key_is (fst kv) ''Hash'' then
        (case into_string (Hash b) (snd kv) of Inl e \<Rightarrow> Inl e | Inr v \<Rightarrow> Inr (b\<lparr>Hash := v\<rparr>))
      else if key_is (fst kv) ''Content'' then
        (case into_strings (snd kv) of Inl e \<Rightarrow> Inl e | Inr v \<Rightarrow> Inr (b\<lparr>Content := v\<rparr>))
      else if key_is (fst kv) ''Reason'' then
        (case into_string (Reason b) (snd kv) of Inl e \<Rightarrow> Inl e | Inr v \<Rightarrow> Inr (b\<lparr>Reason := v\<rparr>))
      else if key_is (fst kv) ''User'' then
        (case into_string (User b) (snd kv) of Inl e \<Rightarrow> Inl e | Inr v \<Rightarrow> Inr (b\<lparr>User := v\<rparr>))
      else Inr b)"

text \<open>The members of an object are read in order, each into the value so far.\<close>

fun members :: "('k \<times> json \<Rightarrow> 'a \<Rightarrow> error + 'a) \<Rightarrow> ('k \<times> json) list \<Rightarrow> 'a \<Rightarrow> error + 'a" where
  "members f [] a = Inr a"
| "members f (kv # kvs) a = (case f kv a of Inl e \<Rightarrow> Inl e | Inr a' \<Rightarrow> members f kvs a')"

text \<open>
  \<^verbatim>\<open>json.Unmarshal(data, &b)\<close> into the receiver \<open>b\<close>: an object fills the fields it
  names, \<open>null\<close> leaves the receiver as it is, and any other value is a type error.
\<close>

fun BlocklistItem_UnmarshalBinary :: "BlocklistItem \<Rightarrow> json \<Rightarrow> error + BlocklistItem" where
  "BlocklistItem_UnmarshalBinary b (JObject kvs) = members BlocklistItem_member kvs b"
| "BlocklistItem_UnmarshalBinary b JNull = Inr b"
| "BlocklistItem_UnmarshalBinary b _ =
     Inl (JsonError ''cannot unmarshal into Go value of type blocklist.BlocklistItem'')"

subsection \<open>Action.MarshalBinary and UnmarshalBinary\<close>

text \<open>
  \<^verbatim>\<open>Cid.MarshalJSON\<close>: the undefined CID is \<open>null\<close>, any other the object
  \<^verbatim>\<open>{"/": "<text>"}\<close>. \<^verbatim>\<open>Cid.UnmarshalJSON\<close> reads that object back through \<open>Decode\<close>.
\<close>

definition Cid_MarshalJSON :: "Cid \<Rightarrow> json" where
  "Cid_MarshalJSON c = (if Defined c then JObject [(''/'', json_of_string (String c))] else JNull)"

definition CidTarget_member :: "string \<times> json \<Rightarrow> string \<Rightarrow> error + string" where
  "CidTarget_member kv target = (if key_is (fst kv) ''/'' then into_string target (snd kv) else Inr target)"

fun Cid_UnmarshalJSON :: "json \<Rightarrow> error + Cid" where
  "Cid_UnmarshalJSON JNull = Inr Undef"
| "Cid_UnmarshalJSON (JObject kvs) =
     (case members CidTarget_member kvs [] of
        Inl e \<Rightarrow> Inl e
      | Inr target \<Rightarrow>
          if target = [] then Inl (ErrInvalidCid ''cid was incorrectly formatted'')
          else Decode target)"
| "Cid_UnmarshalJSON _ = Inl (JsonError ''cannot unmarshal into Go value of type cid.Cid'')"

fun into_cids :: "json \<Rightarrow> error + Cid list" where
  "into_cids JNull = Inr []"
| "into_cids (JArray vs) = mapM Cid_UnmarshalJSON vs"
| "into_cids _ = Inl (JsonError ''cannot unmarshal into Go value of type []cid.Cid'')"

text \<open>
  \<^verbatim>\<open>Time.MarshalJSON\<close> refuses a year outside 0..9999 and otherwise writes the
  \<^verbatim>\<open>RFC3339Nano\<close> text as a JSON string; \<^verbatim>\<open>Time.UnmarshalJSON\<close> parses such a string
  and ignores \<open>null\<close>.
\<close>

definition Time_MarshalJSON :: "Time \<Rightarrow> error + json" where
  "Time_MarshalJSON t =
     (if Year t < 0 \<or> 10000 \<le> Year t
      then Inl (JsonError ''Time.MarshalJSON: year outside of range [0,9999]'')
      else Inr (json_of_string (Format_RFC3339Nano t)))"

fun into_time :: "Time \<Rightarrow> json \<Rightarrow> error + Time" where
  "into_time old JNull = Inr old"
| "into_time old (JString rs) =
     (case Parse_RFC3339 (string_of_runes rs) of
        None \<Rightarrow> Inl (JsonError ''parsing time'')
      | Some t \<Rightarrow> Inr t)"
| "into_time old _ = Inl (JsonError ''Time.UnmarshalJSON: input is not a JSON string'')"

text \<open>\<^verbatim>\<open>json.Marshal(l)\<close> of an \<open>Action\<close>: the five fields in order.\<close>

definition Action_MarshalBinary :: "Action \<Rightarrow> error + json" where
  "Action_MarshalBinary l =
     (case Time_MarshalJSON (CreatedAt l) of
        Inl e \<Rightarrow> Inl e
      | Inr created \<Rightarrow>
          Inr (JObject [(''Typ'', json_of_string (Typ l)),
                        (''Ids'', JArray (map Cid_MarshalJSON (Ids l))),
                        (''Reason'', json_of_string (Reason_a l)),
                        (''User'', json_of_string (User_a l)),
                        (''CreatedAt'', created)]))"

definition Action_member :: "string \<times> json \<Rightarrow> Action \<Rightarrow> error + Action" where
  "Action_member kv l =
     (if key_is (fst kv) ''Typ'' then
        (case into_string (Typ l) (snd kv) of Inl e \<Rightarrow> Inl e | Inr v \<Rightarrow> Inr (l\<lparr>Typ := v\<rparr>))
      else if key_is (fst kv) ''Ids'' then
        (case into_cids (snd kv) of Inl e \<Rightarrow> Inl e | Inr v \<Rightarrow> Inr (l\<lparr>Ids := v\<rparr>))
      else if key_is (fst kv) ''Reason'' then
        (case into_string (Reason_a l) (snd kv) of Inl e \<Rightarrow> Inl e | Inr v \<Rightarrow> Inr (l\<lparr>Reason_a := v\<rparr>))
      else if key_is (fst kv) ''User'' then
        (case into_string (User_a l) (snd kv) of Inl e \<Rightarrow> Inl e | Inr v \<Rightarrow> Inr (l\<lparr>User_a := v\<rparr>))
      else if key_is (fst kv) ''CreatedAt'' then
        (case into_time (CreatedAt l) (snd kv) of Inl e \<Rightarrow> Inl e | Inr v \<Rightarrow> Inr (l\<lparr>CreatedAt := v\<rparr>))
      else Inr l)"

fun Action_UnmarshalBinary :: "Action \<Rightarrow> json \<Rightarrow> error + Action" where
  "Action_UnmarshalBinary l (JObject kvs) = members Action_member kvs l"
| "Action_UnmarshalBinary l JNull = Inr l"
| "Action_UnmarshalBinary l _ =
     Inl (JsonError ''cannot unmarshal into Go value of type blocklist.Action'')"

section \<open>The key-value store (go-datastore)\<close>

text \<open>
  A datastore is an association list from keys to stored documents, together with the
  failure, if any, that each kind of operation currently answers with: I/O can fail at
  any time, and a failed operation changes nothing.
\<close>

datatype dsop = OpHas | OpGet | OpPut | OpDelete | OpQuery

record dstore =
  entries :: "(string \<times> json) list"
  failing :: "dsop \<Rightarrow> error option"

definition ds_Has :: "dstore \<Rightarrow> string \<Rightarrow> error + bool" where
  "ds_Has d k = (case failing d OpHas of Some e \<Rightarrow> Inl e | None \<Rightarrow> Inr (map_of (entries d) k \<noteq> None))"

definition ds_Get :: "dstore \<Rightarrow> string \<Rightarrow> error + json" where
  "ds_Get d k =
     (case failing d OpGet of
        Some e \<Rightarrow> Inl e
      | None \<Rightarrow> (case map_of (entries d) k of None \<Rightarrow> Inl DsErrNotFound | Some v \<Rightarrow> Inr v))"

text \<open>\<open>Put\<close> stores the value under the key, replacing what was there.\<close>

definition ds_Put :: "dstore \<Rightarrow> string \<Rightarrow> json \<Rightarrow> error option \<times> dstore" where
  "ds_Put d k v =
     (case failing d OpPut of
        Some e \<Rightarrow> (Some e, d)
      | None \<Rightarrow> (None, d\<lparr>entries := (k, v) # filter (\<lambda>kv. fst kv \<noteq> k) (entries d)\<rparr>))"

text \<open>\<open>Delete\<close> removes the key; deleting a key that is not there is no error.\<close>

definition ds_Delete :: "dstore \<Rightarrow> string \<Rightarrow> error option \<times> dstore" where
  "ds_Delete d k =
     (case failing d OpDelete of
        Some e \<Rightarrow> (Some e, d)
      | None \<Rightarrow> (None, d\<lparr>entries := filter (\<lambda>kv. fst kv \<noteq> k) (entries d)\<rparr>))"

text \<open>
  A query for the keys under a prefix, ordered by key descending
  (\<^verbatim>\<open>dsq.OrderByKeyDescending\<close>, a byte-wise comparison) and cut off after \<open>limit\<close>
  results; a limit of zero means no limit. The results carry their keys without the
  prefix, as a namespace wrapper returns them. A key held twice in the list counts
  once, with the value \<open>map_of\<close> finds.
\<close>

definition strip_prefix :: "string \<Rightarrow> string \<Rightarrow> string option" where
  "strip_prefix pre k = (if take (length pre) k = pre then Some (drop (length pre) k) else None)"

definition under :: "string \<Rightarrow> (string \<times> json) list \<Rightarrow> (string \<times> json) list" where
  "under pre kvs =
     concat (map (\<lambda>k. case strip_prefix pre k of
                         None \<Rightarrow> []
                       | Some k' \<Rightarrow> (case map_of kvs k of None \<Rightarrow> [] | Some v \<Rightarrow> [(k', v)]))
                 (remdups (map fst kvs)))"

definition apply_limit :: "int \<Rightarrow> 'a list \<Rightarrow> 'a list" where
  "apply_limit limit xs = (if limit = 0 then xs else take (nat limit) xs)"

definition ds_Query :: "dstore \<Rightarrow> string \<Rightarrow> int \<Rightarrow> error + (string \<times> json) list" where
  "ds_Query d pre limit =
     (case failing d OpQuery of
        Some e \<Rightarrow> Inl e
      | None \<Rightarrow> Inr (apply_limit limit (rev (sort_key fst (under pre (entries d))))))"

text \<open>\<^verbatim>\<open>ds.NewKey(s)\<close> for a name without slashes or dots: the name under the root.\<close>

definition NewKey :: "string \<Rightarrow> string" where
  "NewKey s = CHR ''/'' # s"

section \<open>The key-value backend (datastoreblocklist.go)\<close>

text \<open>
  \<^verbatim>\<open>NewDatastoreBlocklist(d)\<close> wraps the one datastore \<open>d\<close> twice: the blocklist lives
  under \<^verbatim>\<open>/safemode/blocklist\<close> and the audit log under \<^verbatim>\<open>/safemode/audit\<close>, while
  \<open>Purge\<close> works on \<open>d\<close> itself. The state of the backend is therefore the one store, and
  the two wrappers are key prefixes.
\<close>

definition safemode_key :: "string \<Rightarrow> string" where
  "safemode_key k = ''/safemode/blocklist'' @ k"

definition audit_key :: "string \<Rightarrow> string" where
  "audit_key k = ''/safemode/audit'' @ k"

text \<open>
  \<open>cidToKey\<close>: a version 0 CID is turned into the version 1 CID of the same multihash
  ("converting cidv0 to cidv1, as all CID are inserted as cidv1 in the compliance
  database").
\<close>

definition cidToKey :: "Cid \<Rightarrow> error + string" where
  "cidToKey c =
     (if Version c = 0 then
        (case FromB58String (String c) of
           Inl err \<Rightarrow> Inl err
         | Inr hash \<Rightarrow> Inr (CidToDsKey (NewCidV1 DagProtobuf hash)))
      else Inr (CidToDsKey c))"

text \<open>\<open>Contains\<close> returns true if the blocklist contains the content referenced by \<open>id\<close>.\<close>

definition DatastoreBlocklist_Contains :: "dstore \<Rightarrow> Cid \<Rightarrow> error + bool" where
  "DatastoreBlocklist_Contains b c =
     (if \<not> Defined c then Inl ErrNotFound
      else (case cidToKey c of
              Inl err \<Rightarrow> Inl err
            | Inr k \<Rightarrow> ds_Has b (safemode_key k)))"

definition DatastoreBlocklist_Block :: "dstore \<Rightarrow> Cid \<Rightarrow> BlockData \<Rightarrow> (error + bool) \<times> dstore" where
  "DatastoreBlocklist_Block b c data =
     (case cidToKey c of
        Inl err \<Rightarrow> (Inl err, b)
      | Inr k \<Rightarrow>
          (case DatastoreBlocklist_Contains b c of
             Inl err \<Rightarrow> (Inl err, b)
           | Inr exists \<Rightarrow>
               if exists then (Inr False, b)
               else
                 (let bi = \<lparr>Hash = String c, Content = Content_d data,
                            Reason = Reason_d data, User = User_d data\<rparr>
                  in case BlocklistItem_MarshalBinary bi of
                       Inl err \<Rightarrow> (Inl err, b)
                     | Inr rawBi \<Rightarrow>
                         (case ds_Put b (safemode_key k) rawBi of
                            (Some err, b') \<Rightarrow> (Inl err, b')
                          | (None, b') \<Rightarrow> (Inr True, b')))))"

definition DatastoreBlocklist_Unblock :: "dstore \<Rightarrow> Cid \<Rightarrow> error option \<times> dstore" where
  "DatastoreBlocklist_Unblock b c =
     (case cidToKey c of
        Inl err \<Rightarrow> (Some err, b)
      | Inr k \<Rightarrow> ds_Delete b (safemode_key k))"

definition DatastoreBlocklist_Search :: "dstore \<Rightarrow> Cid \<Rightarrow> error + BlocklistItem" where
  "DatastoreBlocklist_Search b c =
     (case cidToKey c of
        Inl err \<Rightarrow> Inl err
      | Inr k \<Rightarrow>
          (case ds_Get b (safemode_key k) of
             Inl err \<Rightarrow> Inl err
           | Inr v \<Rightarrow> BlocklistItem_UnmarshalBinary zero_BlocklistItem v))"

definition DatastoreBlocklist_Purge :: "dstore \<Rightarrow> Cid \<Rightarrow> error option \<times> dstore" where
  "DatastoreBlocklist_Purge b c =
     (case cidToKey c of
        Inl err \<Rightarrow> (Some err, b)
      | Inr k \<Rightarrow> ds_Delete b k)"

text \<open>
  A panic is not an error value: an operation that can panic returns \<open>Inl\<close> of the
  panic, and otherwise \<open>Inr\<close> of what it returns.
\<close>

datatype panic = IndexOutOfRange nat nat | MakesliceCapOutOfRange

text \<open>
  \<open>GetLogs\<close>: the audit entries by key descending, at most \<open>limit\<close> of them (the store
  reads limit zero as no limit), each decoded into a fresh \<open>Action\<close>;
  \<^verbatim>\<open>make([]*Action, 0, limit)\<close> panics on a negative limit.
\<close>

definition DatastoreBlocklist_GetLogs :: "dstore \<Rightarrow> int \<Rightarrow> panic + (error + Action list)" where
  "DatastoreBlocklist_GetLogs b limit =
     (case ds_Query b (audit_key ''/'') limit of
        Inl err \<Rightarrow> Inr (Inl err)
      | Inr rr \<Rightarrow>
          if limit < 0 then Inl MakesliceCapOutOfRange
          else Inr (mapM (\<lambda>res. Action_UnmarshalBinary zero_Action (snd res)) rr))"

text \<open>
  \<open>AddLog\<close>: the action type is checked, the key is the RFC 3339 text of the creation
  time, and the result of the store's \<open>Put\<close> is dropped.
\<close>

definition DatastoreBlocklist_AddLog :: "dstore \<Rightarrow> Action \<Rightarrow> error option \<times> dstore" where
  "DatastoreBlocklist_AddLog b act =
     (if Typ act \<noteq> ''block'' \<and> Typ act \<noteq> ''unblock'' then (Some (UnexpectedActionType (Typ act)), b)
      else
        (let k = NewKey (Format_RFC3339 (CreatedAt act))
         in case Action_MarshalBinary act of
              Inl err \<Rightarrow> (Some err, b)
            | Inr rawLi \<Rightarrow> (None, snd (ds_Put b (audit_key k) rawLi))))"

section \<open>The relational store (gorm over PostgreSQL)\<close>

text \<open>
  The rows of the blocklist table and of the \<^verbatim>\<open>auditlog\<close> table. Of the columns that
  \<^verbatim>\<open>gorm.Model\<close> adds, the primary key is kept; no operation of the package reads or
  sets the time stamps and the soft-delete marker of a blocklist row.
\<close>

record PgBlocklistItem =
  ID :: nat
  Hash_pg :: string
  Content_pg :: string
  Reason_pg :: string
  User_pg :: string

record PgLogItem =
  ID_log :: nat
  Typ_log :: string
  RawIds :: string
  Reason_log :: string
  User_log :: string
  CreatedAt_log :: Time

datatype dbop = OpCount | OpFirst | OpCreate | OpDeleteRow | OpFind

text \<open>
  The database: its two tables, the next value of the primary-key sequence, the clock
  reading an insert stamps a row with, and the failure each kind of statement currently
  answers with.
\<close>

record pgdb =
  blocklist :: "PgBlocklistItem list"
  auditlog :: "PgLogItem list"
  next_id :: nat
  now :: Time
  db_failing :: "dbop \<Rightarrow> error option"

text \<open>
  \<^verbatim>\<open>Where(&PgBlocklistItem{Hash: h})\<close>: a struct condition uses the non-zero fields only,
  so an empty \<open>h\<close> is no condition at all.
\<close>

definition where_Hash :: "string \<Rightarrow> PgBlocklistItem list \<Rightarrow> PgBlocklistItem list" where
  "where_Hash h rows = (if h = [] then rows else filter (\<lambda>r. Hash_pg r = h) rows)"

definition db_Count :: "pgdb \<Rightarrow> string \<Rightarrow> error + nat" where
  "db_Count db h =
     (case db_failing db OpCount of
        Some e \<Rightarrow> Inl e
      | None \<Rightarrow> Inr (length (where_Hash h (blocklist db))))"

text \<open>\<^verbatim>\<open>First\<close>: the matching row of least primary key, or gorm's \<^verbatim>\<open>ErrRecordNotFound\<close>.\<close>

definition db_First :: "pgdb \<Rightarrow> string \<Rightarrow> error + PgBlocklistItem" where
  "db_First db h =
     (case db_failing db OpFirst of
        Some e \<Rightarrow> Inl e
      | None \<Rightarrow>
          (case sort_key ID (where_Hash h (blocklist db)) of
             [] \<Rightarrow> Inl ErrRecordNotFound
           | r # rs \<Rightarrow> Inr r))"

text \<open>\<^verbatim>\<open>Create\<close> on the blocklist table: the row gets the next primary key.\<close>

definition db_Create :: "pgdb \<Rightarrow> PgBlocklistItem \<Rightarrow> error option \<times> pgdb" where
  "db_Create db item =
     (case db_failing db OpCreate of
        Some e \<Rightarrow> (Some e, db)
      | None \<Rightarrow>
          (None, db\<lparr>blocklist := blocklist db @ [item\<lparr>ID := next_id db\<rparr>],
                    next_id := next_id db + 1\<rparr>))"

text \<open>
  \<^verbatim>\<open>Create\<close> on \<^verbatim>\<open>auditlog\<close>: the row gets the next primary key and, its \<open>CreatedAt\<close>
  being zero, the current time.
\<close>

definition db_CreateLog :: "pgdb \<Rightarrow> PgLogItem \<Rightarrow> error option \<times> pgdb" where
  "db_CreateLog db item =
     (case db_failing db OpCreate of
        Some e \<Rightarrow> (Some e, db)
      | None \<Rightarrow>
          (None, db\<lparr>auditlog := auditlog db @ [item\<lparr>ID_log := next_id db, CreatedAt_log := now db\<rparr>],
                    next_id := next_id db + 1\<rparr>))"

text \<open>
  \<^verbatim>\<open>Order("created_at DESC, typ").Limit(limit).Find(&logs)\<close>: newest first, equal times
  by type; a limit that is not positive is no limit.
\<close>

definition nanos_of :: "Time \<Rightarrow> int" where
  "nanos_of t = seconds_of t * 1000000000 + int (Nanosecond t)"

definition db_Find :: "pgdb \<Rightarrow> int \<Rightarrow> error + PgLogItem list" where
  "db_Find db limit =
     (case db_failing db OpFind of
        Some e \<Rightarrow> Inl e
      | None \<Rightarrow>
          (let ordered = sort_key (\<lambda>r. - nanos_of (CreatedAt_log r)) (sort_key Typ_log (auditlog db))
           in Inr (if limit \<le> 0 then ordered else take (nat limit) ordered)))"

section \<open>The relational backend (PgBlocklist)\<close>

record PgBlocklist =
  client :: pgdb
  datastore :: dstore

text \<open>
  \<open>Contains\<close> returns true if the blocklist contains the content referenced by \<open>id\<close>;
  a version 0 CID is looked up by the text of its version 1 form.
\<close>

definition PgBlocklist_Contains :: "PgBlocklist \<Rightarrow> Cid \<Rightarrow> error + bool" where
  "PgBlocklist_Contains b c =
     (case (if Version c = 0 then
              (case FromB58String (String c) of
                 Inl err \<Rightarrow> Inl err
               | Inr hash \<Rightarrow> Inr (String (NewCidV1 DagProtobuf hash)))
            else Inr (String c)) of
        Inl err \<Rightarrow> Inl err
      | Inr cidv1 \<Rightarrow>
          (case db_Count (client b) cidv1 of
             Inl err \<Rightarrow> Inl err
           | Inr count \<Rightarrow> Inr (count > 0)))"

text \<open>
  \<open>Block\<close> adds \<open>id\<close> to the list of content we won't touch. "The first return value
  is true if \<open>id\<close> was already blocked, in which case, the metadata (reason / user /
  time) from the first block are kept."
\<close>

definition PgBlocklist_Block :: "PgBlocklist \<Rightarrow> Cid \<Rightarrow> BlockData \<Rightarrow> (error + bool) \<times> PgBlocklist" where
  "PgBlocklist_Block b c data =
     (let blockitem = \<lparr>ID = 0, Hash_pg = String c, Content_pg = Join (Content_d data) [CHR 0x0A],
                       Reason_pg = Reason_d data, User_pg = User_d data\<rparr>
      in case PgBlocklist_Contains b c of
           Inl err \<Rightarrow> (Inl err, b)
         | Inr exists \<Rightarrow>
             if exists then (Inr True, b)
             else (case db_Create (client b) blockitem of
                     (Some err, db) \<Rightarrow> (Inl err, b\<lparr>client := db\<rparr>)
                   | (None, db) \<Rightarrow> (Inr False, b\<lparr>client := db\<rparr>)))"

text \<open>
  \<open>Search\<close> returns metadata about why/when the content identified by \<open>id\<close> was
  blocked. "If the content isn't blocked, ErrNotFound is returned."
\<close>

definition PgBlocklist_Search :: "PgBlocklist \<Rightarrow> Cid \<Rightarrow> error + BlocklistItem" where
  "PgBlocklist_Search b c =
     (case db_First (client b) (String c) of
        Inl err \<Rightarrow> Inl err
      | Inr out \<Rightarrow>
          Inr \<lparr>Hash = Hash_pg out, Content = Split (Content_pg out) (CHR 0x0A),
               Reason = Reason_pg out, User = User_pg out\<rparr>)"

text \<open>
  \<open>Unblock\<close> first checks that the entry exists, then hands the \<open>BlocklistItem\<close> that
  \<open>Search\<close> returned to \<^verbatim>\<open>client.Unscoped().Delete\<close>. That value carries neither the
  table nor a primary key, so what the ORM does with it is left open: \<open>delete\<close> is any
  function from the database and the item to an outcome and a database.
\<close>

definition PgBlocklist_Unblock ::
  "(pgdb \<Rightarrow> BlocklistItem \<Rightarrow> error option \<times> pgdb) \<Rightarrow> PgBlocklist \<Rightarrow> Cid \<Rightarrow> error option \<times> PgBlocklist" where
  "PgBlocklist_Unblock delete b c =
     (case PgBlocklist_Search b c of
        Inl err \<Rightarrow> (Some err, b)
      | Inr res \<Rightarrow>
          (case delete (client b) res of
             (Some err, db) \<Rightarrow> (Some err, b\<lparr>client := db\<rparr>)
           | (None, db) \<Rightarrow> (None, b\<lparr>client := db\<rparr>)))"

definition PgBlocklist_Purge :: "PgBlocklist \<Rightarrow> Cid \<Rightarrow> error option \<times> PgBlocklist" where
  "PgBlocklist_Purge d c =
     (case ds_Delete (datastore d) (CidToDsKey c) of
        (err, ds) \<Rightarrow> (err, d\<lparr>datastore := ds\<rparr>))"

text \<open>
  An indexed write \<^verbatim>\<open>s[i] = v\<close> panics unless \<open>i\<close> is below the length of the slice;
  the capacity given to \<^verbatim>\<open>make\<close> does not count.
\<close>

definition store_at :: "'a list \<Rightarrow> nat \<Rightarrow> 'a \<Rightarrow> panic + 'a list" where
  "store_at xs i v = (if i < length xs then Inr (xs[i := v]) else Inl (IndexOutOfRange i (length xs)))"

text \<open>
  The inner loop of \<open>GetLogs\<close>: \<^verbatim>\<open>for i, r := range rawIds\<close> parses \<open>r\<close> and writes it
  to \<^verbatim>\<open>ids[i]\<close>, starting from \<^verbatim>\<open>ids := make([]cid.Cid, 0, len(rawIds))\<close>.
\<close>

fun parse_ids :: "Cid list \<Rightarrow> nat \<Rightarrow> string list \<Rightarrow> panic + (error + Cid list)" where
  "parse_ids ids i [] = Inr (Inr ids)"
| "parse_ids ids i (r # rs) =
     (case Decode r of
        Inl err \<Rightarrow> Inr (Inl err)
      | Inr c \<Rightarrow>
          (case store_at ids i c of
             Inl p \<Rightarrow> Inl p
           | Inr ids' \<Rightarrow> parse_ids ids' (i + 1) rs))"

text \<open>
  The outer loop: \<^verbatim>\<open>for i, log := range logs\<close> writes the action of each row to
  \<^verbatim>\<open>acts[i]\<close>; a slice of pointers holds \<open>None\<close> where the pointer is nil.
\<close>

fun convert_logs :: "Action option list \<Rightarrow> nat \<Rightarrow> PgLogItem list \<Rightarrow> panic + (error + Action option list)" where
  "convert_logs acts i [] = Inr (Inr acts)"
| "convert_logs acts i (log # logs) =
     (case parse_ids [] 0 (Split (RawIds log) (CHR '';'')) of
        Inl p \<Rightarrow> Inl p
      | Inr (Inl err) \<Rightarrow> Inr (Inl err)
      | Inr (Inr ids) \<Rightarrow>
          (case store_at acts i
                  (Some \<lparr>Typ = Typ_log log, Ids = ids, Reason_a = Reason_log log,
                         User_a = User_log log, CreatedAt = CreatedAt_log log\<rparr>) of
             Inl p \<Rightarrow> Inl p
           | Inr acts' \<Rightarrow> convert_logs acts' (i + 1) logs))"

text \<open>
  \<open>GetLogs\<close> "returns the last 100 auditable actions taken by the compliance dashboard,
  in reverse chronological order".
\<close>

definition PgBlocklist_GetLogs :: "PgBlocklist \<Rightarrow> int \<Rightarrow> panic + (error + Action option list)" where
  "PgBlocklist_GetLogs d limit =
     (case db_Find (client d) limit of
        Inl err \<Rightarrow> Inr (Inl err)
      | Inr logs \<Rightarrow> convert_logs (replicate (length logs) None) 0 logs)"

text \<open>
  The loop of \<open>AddLog\<close>: \<^verbatim>\<open>for i, id := range act.Ids\<close> writes the text of each CID to
  \<^verbatim>\<open>rawIds[i]\<close>, starting from \<^verbatim>\<open>rawIds := make([]string, 0, len(act.Ids))\<close>.
\<close>

fun render_ids :: "string list \<Rightarrow> nat \<Rightarrow> Cid list \<Rightarrow> panic + string list" where
  "render_ids rawIds i [] = Inr rawIds"
| "render_ids rawIds i (c # cs) =
     (case store_at rawIds i (String c) of
        Inl p \<Rightarrow> Inl p
      | Inr rawIds' \<Rightarrow> render_ids rawIds' (i + 1) cs)"

text \<open>\<open>AddLog\<close> saves a record that \<open>act\<close> took place.\<close>

definition PgBlocklist_AddLog :: "PgBlocklist \<Rightarrow> Action \<Rightarrow> (panic + error option) \<times> PgBlocklist" where
  "PgBlocklist_AddLog d act =
     (if Typ act \<noteq> ''block'' \<and> Typ act \<noteq> ''unblock''
      then (Inr (Some (UnexpectedActionType (Typ act))), d)
      else
        (case render_ids [] 0 (Ids act) of
           Inl p \<Rightarrow> (Inl p, d)
         | Inr rawIds \<Rightarrow>
             (case db_CreateLog (client d)
                     \<lparr>ID_log = 0, Typ_log = Typ act, RawIds = Join rawIds '';'',
                      Reason_log = Reason_a act, User_log = User_a act, CreatedAt_log = zero_Time\<rparr> of
                (Some err, db) \<Rightarrow> (Inr (Some err), d\<lparr>client := db\<rparr>)
              | (None, db) \<Rightarrow> (Inr None, d\<lparr>client := db\<rparr>))))"

section \<open>Example values\<close>

text \<open>
  A sha2-256 multihash, the version 0 and version 1 (dag-pb) CIDs over it, and a small
  version 1 CID over an identity multihash.
\<close>

definition h0 :: multihash where
  "h0 = [CHR 0x12, CHR 0x20,
         CHR 0x01, CHR 0x02, CHR 0x03, CHR 0x04, CHR 0x05, CHR 0x06, CHR 0x07, CHR 0x08,
         CHR 0x09, CHR 0x0A, CHR 0x0B, CHR 0x0C, CHR 0x0D, CHR 0x0E, CHR 0x0F, CHR 0x10,
         CHR 0x11, CHR 0x12, CHR 0x13, CHR 0x14, CHR 0x15, CHR 0x16, CHR 0x17, CHR 0x18,
         CHR 0x19, CHR 0x1A, CHR 0x1B, CHR 0x1C, CHR 0x1D, CHR 0x1E, CHR 0x1F, CHR 0x20]"

definition cid_v0 :: Cid where
  "cid_v0 = CidV0 h0"

definition cid_v1 :: Cid where
  "cid_v1 = CidV1 DagProtobuf h0"

definition cid_raw :: Cid where
  "cid_raw = CidV1 Raw [CHR 0x00, CHR 0x01, CHR ''a'']"

definition no_failure :: "'op \<Rightarrow> error option" where
  "no_failure op = None"

definition empty_ds :: dstore where
  "empty_ds = \<lparr>entries = [], failing = no_failure\<rparr>"

definition put_fails :: "dsop \<Rightarrow> error option" where
  "put_fails op = (case op of OpPut \<Rightarrow> Some (StoreFailure ''disk full'') | _ \<Rightarrow> None)"

definition full_ds :: dstore where
  "full_ds = \<lparr>entries = [], failing = put_fails\<rparr>"

definition t0 :: Time where
  "t0 = \<lparr>Year = 2021, Month = 3, Day = 14, Hour = 15, Minute = 9, Second = 26,
          Nanosecond = 0, Offset = 0\<rparr>"

definition empty_db :: pgdb where
  "empty_db = \<lparr>blocklist = [], auditlog = [], next_id = 1, now = t0, db_failing = no_failure\<rparr>"

definition empty_pg :: PgBlocklist where
  "empty_pg = \<lparr>client = empty_db, datastore = empty_ds\<rparr>"

definition one_log_pg :: PgBlocklist where
  "one_log_pg =
     \<lparr>client = empty_db\<lparr>auditlog := [\<lparr>ID_log = 1, Typ_log = ''block'', RawIds = ''bafkqaalb'',
                                        Reason_log = ''DMCA'', User_log = ''alice@example.com'',
                                        CreatedAt_log = t0\<rparr>], next_id := 2\<rparr>,
      datastore = empty_ds\<rparr>"

definition data_alice :: BlockData where
  "data_alice = \<lparr>Blocked = [], Content_d = [''https://example.com/a''], Reason_d = ''DMCA'',
                  User_d = ''alice@example.com''\<rparr>"

definition data_bob :: BlockData where
  "data_bob = \<lparr>Blocked = [], Content_d = [''https://example.com/b''], Reason_d = ''abuse'',
                User_d = ''bob@example.com''\<rparr>"

definition act_block :: Action where
  "act_block = \<lparr>Typ = ''block'', Ids = [cid_raw], Reason_a = ''DMCA'',
                 User_a = ''alice@example.com'', CreatedAt = t0\<rparr>"

definition act_delete :: Action where
  "act_delete = \<lparr>Typ = ''delete'', Ids = [cid_raw], Reason_a = ''DMCA'',
                  User_a = ''alice@example.com'', CreatedAt = t0\<rparr>"

text \<open>An ORM delete that removes nothing, for running \<open>Unblock\<close> on an example.\<close>

definition delete_nothing :: "pgdb \<Rightarrow> BlocklistItem \<Rightarrow> error option \<times> pgdb" where
  "delete_nothing db item = (None, db)"

section \<open>Evaluation rules\<close>

text \<open>
  The recursions on numbers are unfolded only where their guards are decided, and a
  character is built from the bits of its value.
\<close>

declare digits_of.simps [simp del]

declare uvarint.simps [simp del]

lemma digits_of_0 [simp]: "digits_of b 0 acc = acc"
  by (simp add: digits_of.simps)

lemma digits_of_step:
  "2 \<le> b \<Longrightarrow> 0 < n \<Longrightarrow> digits_of b n acc = digits_of b (n div b) (n mod b # acc)"
  by (subst digits_of.simps) simp

lemma uvarint_small: "n < 128 \<Longrightarrow> uvarint n = [chr n]"
  by (simp add: uvarint.simps)

lemma uvarint_step: "128 \<le> n \<Longrightarrow> uvarint n = chr (128 + n mod 128) # uvarint (n div 128)"
  by (subst uvarint.simps) simp

lemma chr_eval:
  "chr n = Char (odd n) (odd (n div 2)) (odd (n div 4)) (odd (n div 8))
                (odd (n div 16)) (odd (n div 32)) (odd (n div 64)) (odd (n div 128))"
  by (simp add: chr_def char_of_def bit_iff_odd)

lemmas codec_eval = b58_encode_def b58_decode_def b32_encode_def b32_decode_def byte_def
  nat_of_digits_def nat_of_bits_def bits8_def bits5_def b58_alphabet_def b32_lower_def
  b32_upper_def index_of_def digits_of_step uvarint_small uvarint_step chr_eval
  DagProtobuf_def Raw_def CidToDsKey_def Decode_def Cast_def FromB58String_def
  wf_multihash_def is_sha256_mh_def NewCidV1_def

lemma String_cid_v0: "String cid_v0 = ''QmNQatwxYrvx45JHzALe54be3KTBVQrLtHdPfkmvNNhQkw''"
  by (simp add: cid_v0_def h0_def codec_eval)

lemma String_cid_v1:
  "String cid_v1 = ''bafybeiabaibqibiga4eascqlbqgq4dyqcejbgfavcylrqgi2dmob2hq7ea''"
  by (simp add: cid_v1_def h0_def codec_eval)

lemma FromB58String_cid_v0:
  "FromB58String ''QmNQatwxYrvx45JHzALe54be3KTBVQrLtHdPfkmvNNhQkw'' = Inr h0"
  by (simp add: h0_def codec_eval)

lemma String_cid_raw: "String cid_raw = ''bafkqaalb''"
  by (simp add: cid_raw_def codec_eval)

lemma Decode_cid_raw: "Decode ''bafkqaalb'' = Inr cid_raw"
  by (simp add: cid_raw_def codec_eval)

lemma CidToDsKey_cid_raw: "CidToDsKey cid_raw = ''/AAAWC''"
  by (simp add: cid_raw_def codec_eval)

lemma cidToKey_cid_raw: "cidToKey cid_raw = Inr ''/AAAWC''"
  using CidToDsKey_cid_raw by (simp add: cidToKey_def cid_raw_def)

section \<open>Facts about the model\<close>

lemma Split_nonempty: "\<exists>w ws. Split s sep = w # ws"
  by (induction s) (auto split: list.splits)

lemma map_of_filter_self: "map_of (filter (\<lambda>kv. fst kv \<noteq> k) xs) k = None"
  by (induction xs) auto

lemma db_Find_one_log: "db_Find (client one_log_pg) 10 = Inr (auditlog (client one_log_pg))"
  by (simp add: db_Find_def one_log_pg_def empty_db_def no_failure_def)

lemma PgBlocklist_Block_cid_v0:
  "PgBlocklist_Block empty_pg cid_v0 data =
     (Inr False,
      empty_pg\<lparr>client := empty_db\<lparr>blocklist :=
          [\<lparr>ID = 1, Hash_pg = ''QmNQatwxYrvx45JHzALe54be3KTBVQrLtHdPfkmvNNhQkw'',
            Content_pg = Join (Content_d data) [CHR 0x0A], Reason_pg = Reason_d data,
            User_pg = User_d data\<rparr>], next_id := 2\<rparr>\<rparr>)"
  using String_cid_v0 FromB58String_cid_v0 String_cid_v1
  by (simp add: PgBlocklist_Block_def PgBlocklist_Contains_def cid_v0_def cid_v1_def NewCidV1_def
      db_Count_def db_Create_def where_Hash_def empty_pg_def empty_db_def no_failure_def)

lemma DatastoreBlocklist_Block_cid_raw:
  "DatastoreBlocklist_Block empty_ds cid_raw data =
     (Inr True,
      empty_ds\<lparr>entries :=
        [(''/safemode/blocklist/AAAWC'',
          JObject [(''Hash'', json_of_string ''bafkqaalb''),
                   (''Content'', JArray (map json_of_string (Content_d data))),
                   (''Reason'', json_of_string (Reason_d data)),
                   (''User'', json_of_string (User_d data))])]\<rparr>)"
  using cidToKey_cid_raw String_cid_raw
  by (simp add: DatastoreBlocklist_Block_def DatastoreBlocklist_Contains_def ds_Has_def ds_Put_def
      BlocklistItem_MarshalBinary_def empty_ds_def no_failure_def safemode_key_def)
    (simp add: cid_raw_def)

section \<open>The claims\<close>

text \<open>
  C1. For a version 0 CID and a version 1 CID over the same multihash, \<open>Contains\<close> of one
  should answer as \<open>Contains\<close> of the other, and after a successful \<open>Block\<close> of either,
  \<open>Contains\<close> of the other should be true, in both backends.

  The relational backend breaks this. \<open>Block\<close> stores the text of the CID as it was
  given, while \<open>Contains\<close> looks for the text of the version 1 form: after the version 0
  CID \<open>cid_v0\<close> is blocked in an empty table (the call reports a new entry), \<open>Contains\<close>
  answers false for its version 1 twin \<open>cid_v1\<close> and for \<open>cid_v0\<close> itself.
\<close>

theorem PgBlocklist_Block_not_normalised:
  "fst (PgBlocklist_Block empty_pg cid_v0 data) = Inr False
   \<and> PgBlocklist_Contains (snd (PgBlocklist_Block empty_pg cid_v0 data)) cid_v1 = Inr False
   \<and> PgBlocklist_Contains (snd (PgBlocklist_Block empty_pg cid_v0 data)) cid_v0 = Inr False"
  using String_cid_v0 FromB58String_cid_v0 String_cid_v1
  by (simp add: PgBlocklist_Block_cid_v0)
    (simp add: PgBlocklist_Contains_def cid_v0_def cid_v1_def NewCidV1_def
      db_Count_def where_Hash_def empty_pg_def empty_db_def no_failure_def)

text \<open>
  C2. Calling \<open>Block\<close> twice for the same CID should leave one entry, and the second call
  should change nothing and report the entry as already present.

  In the relational backend a second \<open>Block\<close> of the version 0 CID \<open>cid_v0\<close> reports a new
  entry again and leaves two rows with the same hash. In the key-value backend the second
  call changes nothing but returns false, which by the documented meaning of the result
  says "not already blocked".
\<close>

theorem second_Block:
  "fst (PgBlocklist_Block (snd (PgBlocklist_Block empty_pg cid_v0 data_alice)) cid_v0 data_bob)
     = Inr False
   \<and> map Hash_pg (blocklist (client (snd
         (PgBlocklist_Block (snd (PgBlocklist_Block empty_pg cid_v0 data_alice)) cid_v0 data_bob))))
     = [String cid_v0, String cid_v0]
   \<and> DatastoreBlocklist_Block (snd (DatastoreBlocklist_Block empty_ds cid_raw data_alice))
         cid_raw data_bob
     = (Inr False, snd (DatastoreBlocklist_Block empty_ds cid_raw data_alice))"
proof -
  have pg: "PgBlocklist_Block (snd (PgBlocklist_Block empty_pg cid_v0 data_alice)) cid_v0 data_bob
      = (Inr False,
         empty_pg\<lparr>client := empty_db\<lparr>blocklist :=
          [\<lparr>ID = 1, Hash_pg = ''QmNQatwxYrvx45JHzALe54be3KTBVQrLtHdPfkmvNNhQkw'',
            Content_pg = Join (Content_d data_alice) [CHR 0x0A], Reason_pg = Reason_d data_alice,
            User_pg = User_d data_alice\<rparr>,
           \<lparr>ID = 2, Hash_pg = ''QmNQatwxYrvx45JHzALe54be3KTBVQrLtHdPfkmvNNhQkw'',
            Content_pg = Join (Content_d data_bob) [CHR 0x0A], Reason_pg = Reason_d data_bob,
            User_pg = User_d data_bob\<rparr>], next_id := 3\<rparr>\<rparr>)"
    using String_cid_v0 FromB58String_cid_v0 String_cid_v1
    by (simp add: PgBlocklist_Block_cid_v0)
      (simp add: PgBlocklist_Block_def PgBlocklist_Contains_def cid_v0_def cid_v1_def NewCidV1_def
        db_Count_def db_Create_def where_Hash_def empty_pg_def empty_db_def no_failure_def)
  have ds: "DatastoreBlocklist_Block (snd (DatastoreBlocklist_Block empty_ds cid_raw data_alice))
         cid_raw data_bob
     = (Inr False, snd (DatastoreBlocklist_Block empty_ds cid_raw data_alice))"
    using cidToKey_cid_raw
    by (simp add: DatastoreBlocklist_Block_cid_raw)
      (simp add: DatastoreBlocklist_Block_def DatastoreBlocklist_Contains_def ds_Has_def
        empty_ds_def no_failure_def safemode_key_def cid_raw_def)
  show ?thesis using pg ds String_cid_v0 by simp
qed

text \<open>
  C3. The indexed writes in the log operations of the relational backend should stay
  within bounds.

  Both loops write at index \<open>i\<close> of a slice made with length zero. \<open>AddLog\<close> panics for
  every valid action with at least one CID, and \<open>GetLogs\<close> panics as soon as the query
  returns a row whose first identifier parses.
\<close>

theorem Pg_log_loops_panic:
  "((Typ act = ''block'' \<or> Typ act = ''unblock'') \<and> Ids act \<noteq> []
      \<longrightarrow> PgBlocklist_AddLog d act = (Inl (IndexOutOfRange 0 0), d))
   \<and> (db_Find (client d) limit = Inr (log # logs)
        \<and> Decode (hd (Split (RawIds log) (CHR '';''))) = Inr c
      \<longrightarrow> PgBlocklist_GetLogs d limit = Inl (IndexOutOfRange 0 0))"
proof (intro conjI impI)
  assume a: "(Typ act = ''block'' \<or> Typ act = ''unblock'') \<and> Ids act \<noteq> []"
  then obtain x xs where "Ids act = x # xs" by (cases "Ids act") auto
  with a show "PgBlocklist_AddLog d act = (Inl (IndexOutOfRange 0 0), d)"
    by (auto simp: PgBlocklist_AddLog_def store_at_def)
next
  assume a: "db_Find (client d) limit = Inr (log # logs)
        \<and> Decode (hd (Split (RawIds log) (CHR '';''))) = Inr c"
  obtain w ws where sp: "Split (RawIds log) (CHR '';'') = w # ws"
    using Split_nonempty by blast
  with a have "Decode w = Inr c" by simp
  with sp have "parse_ids [] 0 (Split (RawIds log) (CHR '';'')) = Inl (IndexOutOfRange 0 0)"
    by (simp add: store_at_def)
  with a show "PgBlocklist_GetLogs d limit = Inl (IndexOutOfRange 0 0)"
    by (simp add: PgBlocklist_GetLogs_def)
qed

theorem Pg_log_loops_panic_witness:
  "Typ act_block = ''block'' \<and> Ids act_block \<noteq> []
   \<and> PgBlocklist_AddLog one_log_pg act_block = (Inl (IndexOutOfRange 0 0), one_log_pg)
   \<and> db_Find (client one_log_pg) 10 = Inr (auditlog (client one_log_pg))
   \<and> Decode (hd (Split ''bafkqaalb'' (CHR '';''))) = Inr cid_raw
   \<and> PgBlocklist_GetLogs one_log_pg 10 = Inl (IndexOutOfRange 0 0)"
proof -
  have s: "Split ''bafkqaalb'' (CHR '';'') = [''bafkqaalb'']" by simp
  have f: "db_Find (client one_log_pg) 10 = Inr (hd (auditlog (client one_log_pg)) # [])"
    by (simp add: db_Find_one_log) (simp add: one_log_pg_def empty_db_def)
  have r: "RawIds (hd (auditlog (client one_log_pg))) = ''bafkqaalb''"
    by (simp add: one_log_pg_def empty_db_def)
  show ?thesis
    using Pg_log_loops_panic [of act_block one_log_pg 10 "hd (auditlog (client one_log_pg))" "[]" cid_raw]
      s f r Decode_cid_raw db_Find_one_log
    by (simp add: act_block_def)
qed

text \<open>
  C4. \<open>Block\<close> should return true when the entry already exists and false when a new
  entry was created, in both backends.

  The key-value backend returns the opposite: its result is true exactly when no entry
  was there before the call. The relational backend (for a version 1 CID) returns true
  exactly when a matching row was there.
\<close>

theorem Block_polarity:
  "(Defined c \<and> cidToKey c = Inr k \<and> failing b OpHas = None \<and> failing b OpPut = None
      \<longrightarrow> fst (DatastoreBlocklist_Block b c data)
            = Inr (map_of (entries b) (safemode_key k) = None))
   \<and> (Version c \<noteq> 0 \<and> db_failing (client p) OpCount = None \<and> db_failing (client p) OpCreate = None
      \<longrightarrow> fst (PgBlocklist_Block p c data)
            = Inr (where_Hash (String c) (blocklist (client p)) \<noteq> []))"
  by (auto simp: DatastoreBlocklist_Block_def DatastoreBlocklist_Contains_def ds_Has_def
      ds_Put_def BlocklistItem_MarshalBinary_def PgBlocklist_Block_def PgBlocklist_Contains_def
      db_Count_def db_Create_def Let_def)

theorem Block_polarity_witness:
  "Defined cid_raw \<and> cidToKey cid_raw = Inr ''/AAAWC'' \<and> failing empty_ds OpHas = None
   \<and> failing empty_ds OpPut = None
   \<and> fst (DatastoreBlocklist_Block empty_ds cid_raw data_alice) = Inr True
   \<and> Version cid_raw \<noteq> 0 \<and> db_failing (client empty_pg) OpCount = None
   \<and> db_failing (client empty_pg) OpCreate = None
   \<and> fst (PgBlocklist_Block empty_pg cid_raw data_alice) = Inr False"
  using Block_polarity [of cid_raw "''/AAAWC''" empty_ds data_alice empty_pg] cidToKey_cid_raw
  by (simp add: empty_ds_def empty_pg_def empty_db_def no_failure_def where_Hash_def)
    (simp add: cid_raw_def)

text \<open>
  C5. When the store write of \<open>AddLog\<close> fails, \<open>AddLog\<close> should return that failure.

  The key-value backend drops the result of \<open>Put\<close>: for a valid action whose creation
  time can be written as JSON, \<open>AddLog\<close> returns no error although the write failed, and
  nothing was stored.
\<close>

theorem DatastoreBlocklist_AddLog_drops_Put_error:
  assumes "Typ act = ''block'' \<or> Typ act = ''unblock''"
    and "0 \<le> Year (CreatedAt act)" and "Year (CreatedAt act) < 10000"
    and "failing b OpPut = Some e"
  shows "DatastoreBlocklist_AddLog b act = (None, b)"
  using assms
  by (auto simp: DatastoreBlocklist_AddLog_def ds_Put_def Let_def Action_MarshalBinary_def
      Time_MarshalJSON_def)

theorem DatastoreBlocklist_AddLog_drops_Put_error_witness:
  "Typ act_block = ''block'' \<and> 0 \<le> Year (CreatedAt act_block) \<and> Year (CreatedAt act_block) < 10000
   \<and> failing full_ds OpPut = Some (StoreFailure ''disk full'')
   \<and> DatastoreBlocklist_AddLog full_ds act_block = (None, full_ds)"
  using DatastoreBlocklist_AddLog_drops_Put_error [of act_block full_ds "StoreFailure ''disk full''"]
  by (simp add: act_block_def t0_def full_ds_def put_fails_def)

text \<open>
  C6. \<open>Unblock\<close> of a CID without an entry should fail with the package's \<open>ErrNotFound\<close>.

  The relational backend returns gorm's "record not found" error that \<open>Search\<close> passes
  on, whatever the ORM's delete would do; the key-value backend returns no error at all,
  since deleting a missing key succeeds.
\<close>

theorem Unblock_missing_entry:
  "(db_failing (client p) OpFirst = None \<and> where_Hash (String c) (blocklist (client p)) = []
      \<longrightarrow> PgBlocklist_Unblock delete p c = (Some ErrRecordNotFound, p))
   \<and> (cidToKey c = Inr k \<and> failing b OpDelete = None \<and> map_of (entries b) (safemode_key k) = None
      \<longrightarrow> fst (DatastoreBlocklist_Unblock b c) = None)"
  by (simp add: PgBlocklist_Unblock_def PgBlocklist_Search_def db_First_def
      DatastoreBlocklist_Unblock_def ds_Delete_def)

theorem Unblock_missing_entry_witness:
  "db_failing (client empty_pg) OpFirst = None
   \<and> where_Hash (String cid_raw) (blocklist (client empty_pg)) = []
   \<and> PgBlocklist_Unblock delete_nothing empty_pg cid_raw = (Some ErrRecordNotFound, empty_pg)
   \<and> cidToKey cid_raw = Inr ''/AAAWC'' \<and> failing empty_ds OpDelete = None
   \<and> map_of (entries empty_ds) (safemode_key ''/AAAWC'') = None
   \<and> fst (DatastoreBlocklist_Unblock empty_ds cid_raw) = None"
  using Unblock_missing_entry [of empty_pg cid_raw delete_nothing "''/AAAWC''" empty_ds]
    cidToKey_cid_raw
  by (simp add: empty_ds_def empty_pg_def empty_db_def no_failure_def where_Hash_def)

text \<open>
  C7. After a successful \<open>Block\<close> and a successful \<open>Unblock\<close> of the same CID,
  \<open>Contains\<close> should be false and the next \<open>Block\<close> should create a fresh entry and
  report "not already blocked", that is, false.

  In the key-value backend, with a store that does not fail, \<open>Unblock\<close> succeeds and
  \<open>Contains\<close> is false afterwards, but the next \<open>Block\<close> returns true.
\<close>

theorem DatastoreBlocklist_Block_after_Unblock:
  assumes "Defined c" and "cidToKey c = Inr k" and "\<forall>op. failing b op = None"
  shows "fst (DatastoreBlocklist_Unblock (snd (DatastoreBlocklist_Block b c data)) c) = None
       \<and> DatastoreBlocklist_Contains
            (snd (DatastoreBlocklist_Unblock (snd (DatastoreBlocklist_Block b c data)) c)) c
          = Inr False
       \<and> fst (DatastoreBlocklist_Block
            (snd (DatastoreBlocklist_Unblock (snd (DatastoreBlocklist_Block b c data)) c)) c data2)
          = Inr True"
proof -
  let ?b1 = "snd (DatastoreBlocklist_Block b c data)"
  let ?b2 = "snd (DatastoreBlocklist_Unblock ?b1 c)"
  have f1: "failing ?b1 = failing b"
    using assms
    by (auto simp: DatastoreBlocklist_Block_def DatastoreBlocklist_Contains_def ds_Has_def
        ds_Put_def BlocklistItem_MarshalBinary_def Let_def)
  have u: "DatastoreBlocklist_Unblock ?b1 c
      = (None, ?b1\<lparr>entries := filter (\<lambda>kv. fst kv \<noteq> safemode_key k) (entries ?b1)\<rparr>)"
    using assms f1 by (simp add: DatastoreBlocklist_Unblock_def ds_Delete_def)
  have f2: "failing ?b2 = failing b" using u f1 by simp
  have m: "map_of (entries ?b2) (safemode_key k) = None"
    using u by (simp add: map_of_filter_self)
  have c2: "DatastoreBlocklist_Contains ?b2 c = Inr False"
    using assms f2 m by (simp add: DatastoreBlocklist_Contains_def ds_Has_def)
  have b3: "fst (DatastoreBlocklist_Block ?b2 c data2) = Inr True"
    using assms f2 m c2
    by (simp add: DatastoreBlocklist_Block_def ds_Put_def BlocklistItem_MarshalBinary_def Let_def)
  show ?thesis using u c2 b3 by simp
qed

theorem DatastoreBlocklist_Block_after_Unblock_witness:
  "Defined cid_raw \<and> cidToKey cid_raw = Inr ''/AAAWC'' \<and> (\<forall>op. failing empty_ds op = None)
   \<and> fst (DatastoreBlocklist_Unblock (snd (DatastoreBlocklist_Block empty_ds cid_raw data_alice)) cid_raw) = None
   \<and> DatastoreBlocklist_Contains
        (snd (DatastoreBlocklist_Unblock (snd (DatastoreBlocklist_Block empty_ds cid_raw data_alice)) cid_raw))
        cid_raw = Inr False
   \<and> fst (DatastoreBlocklist_Block
        (snd (DatastoreBlocklist_Unblock (snd (DatastoreBlocklist_Block empty_ds cid_raw data_alice)) cid_raw))
        cid_raw data_bob) = Inr True"
proof -
  have d: "Defined cid_raw" by (simp add: cid_raw_def)
  have f: "\<forall>op. failing empty_ds op = None" by (simp add: empty_ds_def no_failure_def)
  show ?thesis
    using DatastoreBlocklist_Block_after_Unblock [OF d cidToKey_cid_raw f, of data_alice data_bob]
      d f cidToKey_cid_raw
    by simp
qed

text \<open>
  C9. For an action whose type is neither "block" nor "unblock", \<open>AddLog\<close> fails with
  the error for an unexpected action type and leaves the store as it was, in both
  backends: no entry is written.
\<close>

theorem AddLog_invalid_type_rejected:
  assumes "Typ act \<noteq> ''block''" and "Typ act \<noteq> ''unblock''"
  shows "DatastoreBlocklist_AddLog b act = (Some (UnexpectedActionType (Typ act)), b)
       \<and> PgBlocklist_AddLog d act = (Inr (Some (UnexpectedActionType (Typ act))), d)"
  using assms by (simp add: DatastoreBlocklist_AddLog_def PgBlocklist_AddLog_def)

theorem AddLog_invalid_type_rejected_witness:
  "Typ act_delete \<noteq> ''block'' \<and> Typ act_delete \<noteq> ''unblock''
   \<and> DatastoreBlocklist_AddLog empty_ds act_delete = (Some (UnexpectedActionType ''delete''), empty_ds)
   \<and> PgBlocklist_AddLog one_log_pg act_delete = (Inr (Some (UnexpectedActionType ''delete'')), one_log_pg)"
  using AddLog_invalid_type_rejected [of act_delete empty_ds one_log_pg]
  by (simp add: act_delete_def)

end
